theory Spec2Isabelle
  imports Complex_Main "HOL-Library.Sublist"
begin

section \<open>Strings\<close>

text \<open>
  A Python \<open>str\<close> is modelled as a \<open>string\<close>, each \<open>char\<close> standing for one code point
  below 256. On these code points \<open>str.lower()\<close> moves \<open>A\<close>..\<open>Z\<close> and the upper-case
  Latin-1 letters (192..214, 216..222) up by 32 and leaves every other code point alone, and
  \<open>str.isspace()\<close> holds for 9..13, 28..32, 133 and 160. Timestamps, latencies and similarity
  scores are Python floats; they are modelled as rationals (rounding is not modelled).
\<close>

definition lower_char :: "char \<Rightarrow> char" where
  "lower_char c =
     (let n = (of_char c :: nat)
      in if (65 \<le> n \<and> n \<le> 90) \<or> (192 \<le> n \<and> n \<le> 214) \<or> (216 \<le> n \<and> n \<le> 222)
         then char_of (n + 32) else c)"

definition lower :: "string \<Rightarrow> string" where
  "lower s = map lower_char s"

definition isspace :: "char \<Rightarrow> bool" where
  "isspace c = ((of_char c :: nat) \<in> {9, 10, 11, 12, 13, 28, 29, 30, 31, 32, 133, 160})"

definition lstrip :: "string \<Rightarrow> string" where
  "lstrip s = dropWhile isspace s"

definition rstrip :: "string \<Rightarrow> string" where
  "rstrip s = rev (dropWhile isspace (rev s))"

definition strip :: "string \<Rightarrow> string" where
  "strip s = rstrip (lstrip s)"

text \<open>\<open>sep.join(parts)\<close>.\<close>

fun join :: "string \<Rightarrow> string list \<Rightarrow> string" where
  "join sep [] = []"
| "join sep [x] = x"
| "join sep (x # y # ys) = x @ sep @ join sep (y # ys)"

text \<open>\<open>d.get(k, default)\<close> on a dictionary.\<close>

definition dict_get :: "('k \<rightharpoonup> 'v) \<Rightarrow> 'k \<Rightarrow> 'v \<Rightarrow> 'v" where
  "dict_get d k dflt = (case d k of None \<Rightarrow> dflt | Some v \<Rightarrow> v)"

text \<open>
  Two characters are case variants of each other when they are equal or one is the lower-case
  form of the other; a string is blank when \<open>isspace\<close> holds for each of its characters.
  Both only serve to state properties.
\<close>

definition case_variant :: "char \<Rightarrow> char \<Rightarrow> bool" where
  "case_variant a b = (a = b \<or> b = lower_char a \<or> a = lower_char b)"


section \<open>cache.py: the cache key\<close>

definition get_cache_key :: "string \<Rightarrow> string \<Rightarrow> string" where
  "get_cache_key company question =
     (let normalized_question = strip (lower question)
      in ''financial_rag:'' @ company @ '':'' @ normalized_question)"

section \<open>rate\_limiter.py\<close>

record RateLimiter =
  max_requests :: int
  window_seconds :: int
  requests :: "string \<rightharpoonup> rat list"

text \<open>
  \<open>check_rate_limit\<close>; \<open>current_time\<close> is the reading of \<open>time.time()\<close>. A key that is not
  in \<open>requests\<close> yet is entered with the empty list first.
\<close>

definition check_rate_limit :: "rat \<Rightarrow> string \<Rightarrow> RateLimiter \<Rightarrow> bool \<times> RateLimiter" where
  "check_rate_limit current_time api_key rl =
     (let stored = (case requests rl api_key of None \<Rightarrow> [] | Some ts \<Rightarrow> ts);
          kept = filter (\<lambda>t. t > current_time - of_int (window_seconds rl)) stored
      in if int (length kept) < max_requests rl
         then (True, rl\<lparr>requests := (requests rl)(api_key \<mapsto> kept @ [current_time])\<rparr>)
         else (False, rl\<lparr>requests := (requests rl)(api_key \<mapsto> kept)\<rparr>))"

text \<open>Successive calls for one key, at the given clock readings.\<close>

fun admit_calls :: "rat list \<Rightarrow> string \<Rightarrow> RateLimiter \<Rightarrow> bool list \<times> RateLimiter" where
  "admit_calls [] api_key rl = ([], rl)"
| "admit_calls (t # ts) api_key rl =
     (case check_rate_limit t api_key rl of
        (ok, rl1) \<Rightarrow> (case admit_calls ts api_key rl1 of (oks, rl2) \<Rightarrow> (ok # oks, rl2)))"

text \<open>The window of a key (empty for a key never seen).\<close>

definition window_of :: "RateLimiter \<Rightarrow> string \<Rightarrow> rat list" where
  "window_of rl api_key = (case requests rl api_key of None \<Rightarrow> [] | Some ts \<Rightarrow> ts)"

text \<open>Call times lie within one window when any two of them are less than the window apart.\<close>

definition within_window :: "int \<Rightarrow> rat list \<Rightarrow> bool" where
  "within_window w ts = (\<forall>t \<in> set ts. \<forall>t' \<in> set ts. t' - of_int w < t)"

text \<open>
  The pruning in the words of the specification: the timestamps older than
  \<open>now - window_seconds\<close> are removed, all others stay.
\<close>

definition prune_older_than :: "rat \<Rightarrow> int \<Rightarrow> rat list \<Rightarrow> rat list" where
  "prune_older_than now w ts = filter (\<lambda>t. \<not> t < now - of_int w) ts"

section \<open>rag\_pipeline.py: context building and freshness classification\<close>

text \<open>
  A match returned by the vector index is a dictionary; the code reads its \<open>score\<close> and its
  \<open>metadata\<close> dictionary, both with \<open>.get\<close> and a default, so both may be missing.
\<close>

record Match =
  metadata :: "(string \<rightharpoonup> string) option"
  score :: "rat option"

definition doc_context :: "(string \<rightharpoonup> string) \<Rightarrow> string" where
  "doc_context md =
     dict_get md ''company'' ''Unknown'' @ '' '' @ dict_get md ''report_type'' ''Report'' @ '' ''
     @ ''('' @ dict_get md ''report_date'' ''Unknown date'' @ ''):'' @ [CHR 0x0A]
     @ dict_get md ''content'' []"

text \<open>The loop of \<open>_build_context\<close> that fills \<open>context_parts\<close>.\<close>

fun context_parts :: "Match list \<Rightarrow> string list" where
  "context_parts [] = []"
| "context_parts (m # ms) =
     (let md = (case metadata m of None \<Rightarrow> Map.empty | Some d \<Rightarrow> d);
          sc = (case score m of None \<Rightarrow> 0 | Some x \<Rightarrow> x)
      in if sc < 7 / 10 then context_parts ms else doc_context md # context_parts ms)"

definition build_context :: "Match list \<Rightarrow> string" where
  "build_context matches = join [CHR 0x0A, CHR 0x0A] (context_parts matches)"

definition real_time_indicators :: "string list" where
  "real_time_indicators =
     [''current'', ''latest'', ''now'', ''today'', ''present'', ''recent'',
      ''this quarter'', ''this year'', ''this month'', ''this week'']"

text \<open>
  The loop of \<open>_is_real_time_query\<close>: \<open>indicator in question_lower\<close> is the test for a
  contiguous sublist, and the first indicator found ends the loop.
\<close>

fun scan_indicators :: "string list \<Rightarrow> string \<Rightarrow> bool" where
  "scan_indicators [] question_lower = False"
| "scan_indicators (indicator # rest) question_lower =
     (if sublist indicator question_lower then True else scan_indicators rest question_lower)"

definition is_real_time_query :: "string \<Rightarrow> bool" where
  "is_real_time_query question =
     (let question_lower = lower question in scan_indicators real_time_indicators question_lower)"

section \<open>The shared state and the external collaborators\<close>

text \<open>
  The calls that reach the Redis server, the embedding and completion provider and the vector
  index, and the two operations on the concurrency gauge, are logged in the order in which they
  are made.
\<close>

datatype event =
    GaugeInc
  | GaugeDec
  | RedisGet string
  | RedisSetex string int string
  | EmbeddingCall string
  | VectorQuery "rat list" string
  | CompletionCall string string

text \<open>
  The state shared by all requests, one record for the module-level singletons:
  \<^item> \<open>cache\<close> (class \<open>RedisCache\<close>): \<open>redis\<close> says whether the connection handle
    \<open>self.redis\<close> is set, \<open>cache_hits\<close> and \<open>cache_misses\<close> are its counters;
  \<^item> \<open>redis_db\<close> is the content of the Redis server: the value of a key and the TTL it was
    stored with (expiry itself happens in the server and is not modelled);
  \<^item> \<open>metrics\<close> (class \<open>MetricsManager\<close>): the gauge \<open>concurrent_requests\<close>, the counter
    \<open>query_counter\<close> by labels, the observations of the histogram \<open>query_latency\<close> with
    their labels, and the internal \<open>total_queries\<close>, \<open>cache_hits\<close>, \<open>cache_misses\<close>
    (here \<open>metrics_cache_hits\<close>, \<open>metrics_cache_misses\<close>) and \<open>start_time\<close>;
  \<^item> \<open>query_metrics_rows\<close> are the rows of the table \<open>query_metrics\<close>
    (query text, company, latency, cache hit as 0 or 1, API key);
  \<^item> \<open>trace\<close> is the log of events.
\<close>

record world =
  redis :: bool
  cache_hits :: nat
  cache_misses :: nat
  redis_db :: "string \<rightharpoonup> (string \<times> int)"
  concurrent_requests :: int
  query_counter :: "string \<times> bool \<Rightarrow> nat"
  query_latency :: "((string \<times> bool) \<times> rat) list"
  total_queries :: nat
  metrics_cache_hits :: nat
  metrics_cache_misses :: nat
  start_time :: rat
  query_metrics_rows :: "(string \<times> string \<times> rat \<times> int \<times> string) list"
  trace :: "event list"

text \<open>
  What is raised, with its message (\<open>str(e)\<close>): an exception of class \<open>Exception\<close>, which
  the clauses \<open>except Exception\<close> of the code catch, or one of the other subclasses of
  \<open>BaseException\<close>, which they do not catch, such as \<open>asyncio.CancelledError\<close> raised at
  an \<open>await\<close> when the request is cancelled.
\<close>

datatype exn = Exception string | BaseException string

text \<open>
  What the outside does during one execution of a request: the configured TTLs
  (\<open>config.py\<close> reads them from the process environment), whether the Redis connection, a Redis
  \<open>get\<close> or a Redis \<open>setex\<close> raises and what, whether the database session raises (it is
  not awaited, so only an \<open>Exception\<close> is considered), the outcome of the embedding call, of
  the vector query (\<open>Inl\<close> when the lazy connection to the index raises; an \<open>Exception\<close> of
  the query itself is already turned into the empty list by \<open>PineconeManager.query\<close>) and of
  the completion call, and the readings of \<open>time.time()\<close> on entry and on the way out.
\<close>

record env =
  CACHE_TTL_REALTIME :: int
  CACHE_TTL_HISTORICAL :: int
  redis_connect_error :: "exn option"
  redis_get_error :: "exn option"
  redis_setex_error :: "exn option"
  embedding_result :: "string \<Rightarrow> exn + rat list"
  vector_result :: "rat list \<Rightarrow> string \<Rightarrow> exn + Match list"
  completion_result :: "string \<Rightarrow> string \<Rightarrow> exn + string"
  db_error :: bool
  clock_start :: rat
  clock_end :: rat

section \<open>metrics.py\<close>

definition increment_concurrent :: "world \<Rightarrow> world" where
  "increment_concurrent w =
     w\<lparr>concurrent_requests := concurrent_requests w + 1, trace := trace w @ [GaugeInc]\<rparr>"

definition decrement_concurrent :: "world \<Rightarrow> world" where
  "decrement_concurrent w =
     w\<lparr>concurrent_requests := concurrent_requests w - 1, trace := trace w @ [GaugeDec]\<rparr>"

definition record_query :: "string \<Rightarrow> rat \<Rightarrow> bool \<Rightarrow> world \<Rightarrow> world" where
  "record_query company latency cache_hit w =
     (let w1 = w\<lparr>query_counter :=
                  (query_counter w)((company, cache_hit) := query_counter w (company, cache_hit) + 1)\<rparr>;
          w2 = w1\<lparr>query_latency := query_latency w1 @ [((company, cache_hit), latency)]\<rparr>;
          w3 = w2\<lparr>total_queries := total_queries w2 + 1\<rparr>
      in if cache_hit then w3\<lparr>metrics_cache_hits := metrics_cache_hits w3 + 1\<rparr>
         else w3\<lparr>metrics_cache_misses := metrics_cache_misses w3 + 1\<rparr>)"

text \<open>\<open>get_metrics_summary\<close>, the dictionary it returns; \<open>now\<close> is \<open>time.time()\<close>.\<close>

definition get_metrics_summary :: "rat \<Rightarrow> world \<Rightarrow> (string \<rightharpoonup> rat)" where
  "get_metrics_summary now w =
     (let uptime = now - start_time w;
          cache_hit_ratio = of_nat (metrics_cache_hits w) / of_nat (max 1 (total_queries w))
      in [''total_queries'' \<mapsto> of_nat (total_queries w),
          ''cache_hits'' \<mapsto> of_nat (metrics_cache_hits w),
          ''cache_misses'' \<mapsto> of_nat (metrics_cache_misses w),
          ''cache_hit_ratio'' \<mapsto> cache_hit_ratio,
          ''uptime_seconds'' \<mapsto> uptime,
          ''queries_per_second'' \<mapsto> of_nat (total_queries w) / max 1 uptime])"

section \<open>cache.py\<close>

text \<open>
  An operation that may raise returns \<open>Inl\<close> with what is raised, next to the state it leaves
  behind. \<open>connect\<close> logs an \<open>Exception\<close> and raises it again.
\<close>

definition cache_connect :: "env \<Rightarrow> world \<Rightarrow> (exn + unit) \<times> world" where
  "cache_connect e w =
     (case redis_connect_error e of
        Some x \<Rightarrow> (Inl x, w)
      | None \<Rightarrow> (Inr (), w\<lparr>redis := True\<rparr>))"

text \<open>
  \<open>RedisCache.get\<close>: the lazy \<open>connect\<close> stands before the \<open>try\<close>; inside it an empty
  value counts as absent (\<open>if value\<close>) and an \<open>Exception\<close> is turned into a miss.
\<close>

definition cache_get :: "env \<Rightarrow> string \<Rightarrow> world \<Rightarrow> (exn + string option) \<times> world" where
  "cache_get e key w =
     (case (if \<not> redis w then cache_connect e w else (Inr (), w)) of
        (Inl x, w1) \<Rightarrow> (Inl x, w1)
      | (Inr u, w1) \<Rightarrow>
          (let w2 = w1\<lparr>trace := trace w1 @ [RedisGet key]\<rparr>
           in case redis_get_error e of
                Some (Exception msg) \<Rightarrow> (Inr None, w2\<lparr>cache_misses := cache_misses w2 + 1\<rparr>)
              | Some (BaseException msg) \<Rightarrow> (Inl (BaseException msg), w2)
              | None \<Rightarrow>
                  (case redis_db w2 key of
                     Some (v, ttl) \<Rightarrow>
                       if v \<noteq> [] then (Inr (Some v), w2\<lparr>cache_hits := cache_hits w2 + 1\<rparr>)
                       else (Inr None, w2\<lparr>cache_misses := cache_misses w2 + 1\<rparr>)
                   | None \<Rightarrow> (Inr None, w2\<lparr>cache_misses := cache_misses w2 + 1\<rparr>))))"

text \<open>\<open>RedisCache.set\<close>: an \<open>Exception\<close> of \<open>setex\<close> is logged and dropped.\<close>

definition cache_set :: "env \<Rightarrow> string \<Rightarrow> string \<Rightarrow> bool \<Rightarrow> world \<Rightarrow> (exn + unit) \<times> world" where
  "cache_set e key v is_real_time w =
     (case (if \<not> redis w then cache_connect e w else (Inr (), w)) of
        (Inl x, w1) \<Rightarrow> (Inl x, w1)
      | (Inr u, w1) \<Rightarrow>
          (let ttl = (if is_real_time then CACHE_TTL_REALTIME e else CACHE_TTL_HISTORICAL e);
               w2 = w1\<lparr>trace := trace w1 @ [RedisSetex key ttl v]\<rparr>
           in case redis_setex_error e of
                Some (Exception msg) \<Rightarrow> (Inr (), w2)
              | Some (BaseException msg) \<Rightarrow> (Inl (BaseException msg), w2)
              | None \<Rightarrow> (Inr (), w2\<lparr>redis_db := (redis_db w2)(key \<mapsto> (v, ttl))\<rparr>)))"

text \<open>
  \<open>get_cache_stats\<close>; \<open>dbsize\<close> is the outcome of \<open>redis.dbsize()\<close>, \<open>Inl\<close> when it raises.
  An \<open>Exception\<close> is logged and leaves the size at 0.
\<close>

definition get_cache_stats :: "exn + nat \<Rightarrow> world \<Rightarrow> exn + (string \<rightharpoonup> rat)" where
  "get_cache_stats dbsize w =
     (let total_requests = cache_hits w + cache_misses w;
          hit_ratio = (if total_requests > 0 then of_nat (cache_hits w) / of_nat total_requests else 0);
          stats = (\<lambda>cache_size.
            [''cache_hits'' \<mapsto> of_nat (cache_hits w),
             ''cache_misses'' \<mapsto> of_nat (cache_misses w),
             ''hit_ratio'' \<mapsto> hit_ratio,
             ''cache_size'' \<mapsto> cache_size])
      in if redis w then
           (case dbsize of
              Inr n \<Rightarrow> Inr (stats (of_nat n))
            | Inl (Exception msg) \<Rightarrow> Inr (stats 0)
            | Inl (BaseException msg) \<Rightarrow> Inl (BaseException msg))
         else Inr (stats 0))"

section \<open>llm.py, vector\_store.py and the database session\<close>

definition get_embedding_async :: "env \<Rightarrow> string \<Rightarrow> world \<Rightarrow> (exn + rat list) \<times> world" where
  "get_embedding_async e text w =
     (embedding_result e text, w\<lparr>trace := trace w @ [EmbeddingCall text]\<rparr>)"

definition vector_store_query :: "env \<Rightarrow> rat list \<Rightarrow> string \<Rightarrow> world \<Rightarrow> (exn + Match list) \<times> world" where
  "vector_store_query e embedding company w =
     (vector_result e embedding company, w\<lparr>trace := trace w @ [VectorQuery embedding company]\<rparr>)"

definition generate_answer_async :: "env \<Rightarrow> string \<Rightarrow> string \<Rightarrow> world \<Rightarrow> (exn + string) \<times> world" where
  "generate_answer_async e context question w =
     (completion_result e context question, w\<lparr>trace := trace w @ [CompletionCall context question]\<rparr>)"

text \<open>\<open>_record_query_metrics\<close>: an \<open>Exception\<close> is logged and dropped.\<close>

definition record_query_metrics ::
    "env \<Rightarrow> string \<Rightarrow> string \<Rightarrow> rat \<Rightarrow> bool \<Rightarrow> string \<Rightarrow> world \<Rightarrow> world" where
  "record_query_metrics e company question latency cache_hit api_key w =
     (if db_error e then w
      else w\<lparr>query_metrics_rows := query_metrics_rows w
                @ [(question, company, latency, if cache_hit then 1 else 0, api_key)]\<rparr>)"

section \<open>rag\_pipeline.py: process\_query\<close>

text \<open>The dictionary that \<open>process_query\<close> returns; \<open>error\<close> is present on the error path only.\<close>

record QueryResult =
  answer :: string
  source :: string
  latency_seconds :: rat
  error :: "string option"

definition insufficient_answer :: "string \<Rightarrow> string" where
  "insufficient_answer company =
     ''I don'' @ [CHR 0x27] @ ''t have enough information about '' @ company
     @ '' to answer this question.''"

definition error_answer :: string where
  "error_answer = ''Sorry, I encountered an error while processing your question.''"

text \<open>
  The body of the \<open>try\<close> block: \<open>Inl\<close> is what is raised, on its way to the \<open>except\<close>
  clause, \<open>Inr\<close> a value returned.
\<close>

definition process_query_try ::
    "env \<Rightarrow> string \<Rightarrow> string \<Rightarrow> string \<Rightarrow> world \<Rightarrow> (exn + QueryResult) \<times> world" where
  "process_query_try e company question api_key w =
     (let cache_key = get_cache_key company question
      in case cache_get e cache_key w of
           (Inl x, w1) \<Rightarrow> (Inl x, w1)
         | (Inr cached_answer, w1) \<Rightarrow>
             if cached_answer \<noteq> None \<and> cached_answer \<noteq> Some [] then
               (let latency = clock_end e - clock_start e;
                    w2 = record_query company latency True w1;
                    w3 = record_query_metrics e company question latency True api_key w2
                in (Inr \<lparr>answer = (case cached_answer of Some v \<Rightarrow> v | None \<Rightarrow> []),
                         source = ''cache'', latency_seconds = latency, error = None\<rparr>, w3))
             else
               (case get_embedding_async e question w1 of
                  (Inl x, w2) \<Rightarrow> (Inl x, w2)
                | (Inr question_embedding, w2) \<Rightarrow>
                    (case vector_store_query e question_embedding company w2 of
                       (Inl x, w3) \<Rightarrow> (Inl x, w3)
                     | (Inr matches, w3) \<Rightarrow>
                         if matches = [] then
                           (Inr \<lparr>answer = insufficient_answer company, source = ''generated'',
                                 latency_seconds = clock_end e - clock_start e, error = None\<rparr>, w3)
                         else
                           (let context = build_context matches
                            in case generate_answer_async e context question w3 of
                                 (Inl x, w4) \<Rightarrow> (Inl x, w4)
                               | (Inr generated, w4) \<Rightarrow>
                                   (let is_real_time = is_real_time_query question
                                    in case cache_set e cache_key generated is_real_time w4 of
                                         (Inl x, w5) \<Rightarrow> (Inl x, w5)
                                       | (Inr u, w5) \<Rightarrow>
                                           (let latency = clock_end e - clock_start e;
                                                w6 = record_query company latency False w5;
                                                w7 = record_query_metrics e company question
                                                       latency False api_key w6
                                            in (Inr \<lparr>answer = generated, source = ''generated'',
                                                     latency_seconds = latency, error = None\<rparr>,
                                                w7)))))))"

text \<open>
  \<open>process_query\<close>: the gauge goes up before the \<open>try\<close>, the clause
  \<open>except Exception\<close> turns an \<open>Exception\<close> into the error result, and the \<open>finally\<close>
  clause takes the gauge down, also when something else is raised: that goes on to the caller
  (\<open>Inl\<close>).
\<close>

definition process_query ::
    "env \<Rightarrow> string \<Rightarrow> string \<Rightarrow> string \<Rightarrow> world \<Rightarrow> (exn + QueryResult) \<times> world" where
  "process_query e company question api_key w =
     (let w0 = increment_concurrent w
      in case process_query_try e company question api_key w0 of
           (Inr result, w1) \<Rightarrow> (Inr result, decrement_concurrent w1)
         | (Inl (Exception msg), w1) \<Rightarrow>
             (Inr \<lparr>answer = error_answer, source = ''error'',
                   latency_seconds = clock_end e - clock_start e, error = Some msg\<rparr>,
              decrement_concurrent w1)
         | (Inl (BaseException msg), w1) \<Rightarrow> (Inl (BaseException msg), decrement_concurrent w1))"

text \<open>
  Requests that overlap in time: each execution of \<open>process_query\<close> is cut into its entry (the
  gauge goes up), its \<open>try\<close> statement and its exit (the \<open>finally\<close> clause), and a schedule
  lists these pieces in the order in which the event loop runs them.
\<close>

datatype piece = Enter | Try env string string string | Exit

fun run_piece :: "piece \<Rightarrow> world \<Rightarrow> world" where
  "run_piece Enter w = increment_concurrent w"
| "run_piece (Try e company question api_key) w = snd (process_query_try e company question api_key w)"
| "run_piece Exit w = decrement_concurrent w"

fun run_schedule :: "piece list \<Rightarrow> world \<Rightarrow> world" where
  "run_schedule [] w = w"
| "run_schedule (p # ps) w = run_schedule ps (run_piece p w)"

section \<open>api.py: the metrics endpoint\<close>

text \<open>\<open>d[k]\<close> on a dictionary raises \<open>KeyError\<close> for a missing key.\<close>

definition dict_index :: "('k \<rightharpoonup> 'v) \<Rightarrow> 'k \<Rightarrow> exn + 'v" where
  "dict_index d k = (case d k of None \<Rightarrow> Inl (Exception ''KeyError'') | Some v \<Rightarrow> Inr v)"

text \<open>
  A value in the dictionary that \<open>get_metrics\<close> builds: a Python number, or the object in
  which the Prometheus gauge keeps its value (\<open>metrics.concurrent_requests._value\<close>), which
  is not a number.
\<close>

datatype pyval = Number rat | ValueHolder rat

text \<open>The handler \<open>get_metrics\<close>, up to its \<open>return\<close>; \<open>now\<close> is \<open>time.time()\<close>.\<close>

definition get_metrics :: "rat \<Rightarrow> exn + nat \<Rightarrow> world \<Rightarrow> exn + (string \<rightharpoonup> pyval)" where
  "get_metrics now dbsize w =
     (let metrics_summary = get_metrics_summary now w
      in case get_cache_stats dbsize w of
           Inl x \<Rightarrow> Inl x
         | Inr cache_stats \<Rightarrow>
             (case dict_index metrics_summary ''total_queries'' of
                Inl x \<Rightarrow> Inl x
              | Inr query_count \<Rightarrow>
                  (case dict_index cache_stats ''hit_ratio'' of
                     Inl x \<Rightarrow> Inl x
                   | Inr hit_ratio \<Rightarrow>
                       (case dict_index cache_stats ''cache_size'' of
                          Inl x \<Rightarrow> Inl x
                        | Inr cache_size \<Rightarrow>
                            Inr [''query_count'' \<mapsto> Number query_count,
                                 ''cache_hit_ratio'' \<mapsto> Number hit_ratio,
                                 ''concurrent_requests'' \<mapsto>
                                    ValueHolder (of_int (concurrent_requests w)),
                                 ''average_latency'' \<mapsto>
                                    Number (dict_get metrics_summary ''queries_per_second'' 0),
                                 ''cache_size'' \<mapsto> Number cache_size]))))"

text \<open>
  The route is declared with \<open>response_model=MetricsResponse\<close> (\<open>models.py\<close>:
  \<open>query_count: int\<close>, \<open>cache_hit_ratio: float\<close>, \<open>concurrent_requests: int\<close>,
  \<open>average_latency: float\<close>, \<open>cache_size: Optional[int]\<close>), so the framework validates the
  dictionary that the handler returns and answers with an internal server error when a field
  does not validate. The numbers that the handler produces fit their fields; an object that is
  not a number does not validate. \<open>cache_size\<close> may be missing, the other fields are required.
\<close>

definition validate_field :: "bool \<Rightarrow> pyval option \<Rightarrow> exn + rat option" where
  "validate_field required v =
     (case v of
        Some (Number x) \<Rightarrow> Inr (Some x)
      | Some (ValueHolder x) \<Rightarrow> Inl (Exception ''ResponseValidationError'')
      | None \<Rightarrow> if required then Inl (Exception ''ResponseValidationError'') else Inr None)"

fun validate_fields :: "(string \<times> bool) list \<Rightarrow> (string \<rightharpoonup> pyval) \<Rightarrow> exn + (string \<rightharpoonup> rat)" where
  "validate_fields [] d = Inr Map.empty"
| "validate_fields ((name, required) # rest) d =
     (case validate_field required (d name) of
        Inl x \<Rightarrow> Inl x
      | Inr v \<Rightarrow>
          (case validate_fields rest d of
             Inl x \<Rightarrow> Inl x
           | Inr r \<Rightarrow> Inr (r(name := v))))"

definition MetricsResponse :: "(string \<times> bool) list" where
  "MetricsResponse =
     [(''query_count'', True), (''cache_hit_ratio'', True), (''concurrent_requests'', True),
      (''average_latency'', True), (''cache_size'', False)]"

text \<open>
  The operation \<open>GET /metrics\<close> as a caller sees it: \<open>Inr\<close> is the body of the response,
  \<open>Inl\<close> an internal server error.
\<close>

definition metrics_endpoint :: "rat \<Rightarrow> exn + nat \<Rightarrow> world \<Rightarrow> exn + (string \<rightharpoonup> rat)" where
  "metrics_endpoint now dbsize w =
     (case get_metrics now dbsize w of
        Inl x \<Rightarrow> Inl x
      | Inr combined_metrics \<Rightarrow> validate_fields MetricsResponse combined_metrics)"

text \<open>
  The average latency of the queries recorded so far, in the words of the specification: the
  mean of the latencies that \<open>record_query\<close> has observed.
\<close>

definition recorded_average_latency :: "world \<Rightarrow> rat" where
  "recorded_average_latency w =
     sum_list (map snd (query_latency w)) / of_nat (length (query_latency w))"

text \<open>The state of a process that has just started, at clock reading \<open>t0\<close>.\<close>

definition initial_world :: "rat \<Rightarrow> world" where
  "initial_world t0 =
     \<lparr>redis = False, cache_hits = 0, cache_misses = 0, redis_db = Map.empty,
      concurrent_requests = 0, query_counter = (\<lambda>l. 0), query_latency = [],
      total_queries = 0, metrics_cache_hits = 0, metrics_cache_misses = 0, start_time = t0,
      query_metrics_rows = [], trace = []\<rparr>"

text \<open>
  One state extends another quietly when its log is the other's, followed by events that are
  not operations on the gauge. It only serves to state lemmas.
\<close>

definition extends_quietly :: "world \<Rightarrow> world \<Rightarrow> bool" where
  "extends_quietly w w' =
     (\<exists>evs. trace w' = trace w @ evs \<and> GaugeInc \<notin> set evs \<and> GaugeDec \<notin> set evs)"

section \<open>Sample inputs\<close>

text \<open>
  A healthy outside: every call succeeds, the vector index finds nothing, and the request takes
  two seconds. The TTLs are the defaults of \<open>config.py\<close>.
\<close>

definition sample_env :: env where
  "sample_env =
     \<lparr>CACHE_TTL_REALTIME = 3600, CACHE_TTL_HISTORICAL = 86400,
      redis_connect_error = None, redis_get_error = None, redis_setex_error = None,
      embedding_result = (\<lambda>text. Inr [1]),
      vector_result = (\<lambda>embedding company. Inr []),
      completion_result = (\<lambda>context question. Inr ''Revenue was 10.''),
      db_error = False, clock_start = 100, clock_end = 102\<rparr>"

text \<open>A match with similarity 0.65 and one with similarity 0.9.\<close>

definition weak_match :: Match where
  "weak_match =
     \<lparr>metadata = Some [''company'' \<mapsto> ''Apple'', ''content'' \<mapsto> ''Outlook.''],
      score = Some (65 / 100)\<rparr>"

definition strong_match :: Match where
  "strong_match =
     \<lparr>metadata = Some [''company'' \<mapsto> ''Apple'', ''content'' \<mapsto> ''Revenue.''],
      score = Some (9 / 10)\<rparr>"

definition env_weak :: env where
  "env_weak = sample_env\<lparr>vector_result := (\<lambda>embedding company. Inr [weak_match])\<rparr>"

definition env_strong :: env where
  "env_strong = sample_env\<lparr>vector_result := (\<lambda>embedding company. Inr [strong_match])\<rparr>"

text \<open>A process with a connected cache, and one that has recorded two queries of three seconds each.\<close>

definition connected_world :: world where
  "connected_world = (initial_world 0)\<lparr>redis := True\<rparr>"

definition two_slow_queries :: world where
  "two_slow_queries =
     record_query ''Apple'' 3 False (record_query ''Apple'' 3 False (initial_world 0))"

section \<open>Lower case, blanks and the cache key\<close>

lemma of_char_lt_256: "(of_char c :: nat) < 256"
  by (cases c) (simp add: of_char_Char horner_sum_eq_sum)

lemma lower_char_idem: "lower_char (lower_char c) = lower_char c"
proof -
  have b: "(of_char c :: nat) < 256" by (rule of_char_lt_256)
  show ?thesis
    using b by (auto simp add: lower_char_def Let_def)
qed


lemma case_variant_lower_char: "case_variant a b \<Longrightarrow> lower_char a = lower_char b"
  by (auto simp add: case_variant_def lower_char_idem)

lemma case_variant_lower: "list_all2 case_variant q q' \<Longrightarrow> lower q' = lower q"
  by (induction q q' rule: list_all2_induct) (auto simp add: lower_def case_variant_lower_char)










text \<open>
  C10. The cache key is not injective in the company: the companies \<open>a:b\<close> and \<open>a\<close> differ,
  and the pairs (\<open>a:b\<close>, \<open>c\<close>) and (\<open>a\<close>, \<open>b:c\<close>) have the same key, because the colon that
  joins company and question may occur in the company. So the answer generated and cached for a
  query about \<open>a:b\<close> is served from the cache to the next query, which is about \<open>a\<close>.
\<close>

theorem cache_key_collision:
  "(''a:b'' :: string) \<noteq> ''a''
   \<and> get_cache_key ''a:b'' ''c'' = get_cache_key ''a'' ''b:c''
   \<and> fst (process_query env_strong ''a:b'' ''c'' ''key-0001'' (initial_world 0))
       = Inr \<lparr>answer = ''Revenue was 10.'', source = ''generated'', latency_seconds = 2, error = None\<rparr>
   \<and> fst (process_query sample_env ''a'' ''b:c'' ''key-0002''
            (snd (process_query env_strong ''a:b'' ''c'' ''key-0001'' (initial_world 0))))
       = Inr \<lparr>answer = ''Revenue was 10.'', source = ''cache'', latency_seconds = 2, error = None\<rparr>"
  by code_simp

section \<open>The rate limiter\<close>

lemma check_rate_limit_fields:
  "max_requests (snd (check_rate_limit t k rl)) = max_requests rl"
  "window_seconds (snd (check_rate_limit t k rl)) = window_seconds rl"
  by (simp_all add: check_rate_limit_def Let_def)

lemma check_rate_limit_window:
  "window_of (snd (check_rate_limit now k rl)) k =
     filter (\<lambda>t. \<not> t \<le> now - of_int (window_seconds rl)) (window_of rl k)
     @ (if fst (check_rate_limit now k rl) then [now] else [])"
  by (simp add: check_rate_limit_def Let_def window_of_def not_le)

lemma check_rate_limit_admits:
  "fst (check_rate_limit now k rl) \<longleftrightarrow>
     int (length (filter (\<lambda>t. \<not> t \<le> now - of_int (window_seconds rl)) (window_of rl k)))
       < max_requests rl"
  by (simp add: check_rate_limit_def Let_def window_of_def not_le)

lemma within_window_keeps:
  assumes "within_window w (xs @ t # ts)"
  shows "filter (\<lambda>t'. \<not> t' \<le> t - of_int w) xs = xs"
  using assms by (auto simp add: within_window_def filter_id_conv not_le)

lemma admit_calls_run:
  "within_window (window_seconds rl) (window_of rl k @ ts) \<Longrightarrow>
   fst (admit_calls ts k rl) =
     replicate (min (length ts) (nat (max_requests rl) - length (window_of rl k))) True
     @ replicate (length ts - (nat (max_requests rl) - length (window_of rl k))) False
   \<and> window_of (snd (admit_calls ts k rl)) k =
     window_of rl k @ take (nat (max_requests rl) - length (window_of rl k)) ts"
proof (induction ts arbitrary: rl)
  case Nil
  then show ?case by simp
next
  case (Cons t ts)
  let ?rl1 = "snd (check_rate_limit t k rl)"
  let ?ok = "fst (check_rate_limit t k rl)"
  have keep: "filter (\<lambda>t'. \<not> t' \<le> t - of_int (window_seconds rl)) (window_of rl k) = window_of rl k"
    using Cons.prems by (rule within_window_keeps)
  have ok: "?ok \<longleftrightarrow> length (window_of rl k) < nat (max_requests rl)"
    using keep by (simp add: check_rate_limit_admits) linarith
  have w1: "window_of ?rl1 k = window_of rl k @ (if ?ok then [t] else [])"
    using keep by (simp add: check_rate_limit_window)
  have ww: "within_window (window_seconds ?rl1) (window_of ?rl1 k @ ts)"
    using Cons.prems w1 by (auto simp add: within_window_def check_rate_limit_fields)
  note IH = Cons.IH [OF ww]
  have unfold: "admit_calls (t # ts) k rl =
      (?ok # fst (admit_calls ts k ?rl1), snd (admit_calls ts k ?rl1))"
    by (simp split: prod.splits)
  show ?case
  proof (cases ?ok)
    case True
    then have lt: "length (window_of rl k) < nat (max_requests rl)" using ok by simp
    then obtain d where d: "nat (max_requests rl) - length (window_of rl k) = Suc d"
      by (metis Suc_diff_Suc)
    have d1: "nat (max_requests rl) - length (window_of ?rl1 k) = d"
      using w1 True d by simp
    show ?thesis
      using IH True w1 d d1 unfolding unfold by (simp add: check_rate_limit_fields)
  next
    case False
    then have ge: "nat (max_requests rl) - length (window_of rl k) = 0" using ok by simp
    have d1: "nat (max_requests rl) - length (window_of ?rl1 k) = 0"
      using w1 False ge by simp
    show ?thesis
      using IH False w1 ge d1 unfolding unfold by (simp add: check_rate_limit_fields)
  qed
qed

lemma within_window_take: "within_window w ts \<Longrightarrow> within_window w (take i ts)"
  by (auto simp add: within_window_def dest: in_set_takeD)

text \<open>
  C2, as amended. For a key with an empty window, and \<open>max_requests + 1\<close> calls whose clock
  readings lie within one window: the first \<open>max_requests\<close> calls are admitted and the last
  one is denied; after \<open>i \<le> max_requests\<close> calls the window holds the first \<open>i\<close> clock
  readings, so each admitted call has appended its own; the denied call appends nothing. On
  every call, in any state, the timestamps removed before the length test are exactly those
  at or before \<open>now - window_seconds\<close> (a timestamp stays when it is later than that), the
  call is admitted exactly when fewer than \<open>max_requests\<close> stay, and only an admitted call
  appends \<open>now\<close>.
\<close>

theorem rate_limit_window:
  assumes fresh: "window_of rl key = []"
    and len: "length ts = nat (max_requests rl) + 1"
    and win: "within_window (window_seconds rl) ts"
  shows "fst (admit_calls ts key rl) = replicate (nat (max_requests rl)) True @ [False]
    \<and> (\<forall>i \<le> nat (max_requests rl).
          window_of (snd (admit_calls (take i ts) key rl)) key = take i ts)
    \<and> window_of (snd (admit_calls ts key rl)) key = butlast ts
    \<and> window_of (snd (check_rate_limit now key rl0)) key =
         filter (\<lambda>t. \<not> t \<le> now - of_int (window_seconds rl0)) (window_of rl0 key)
         @ (if fst (check_rate_limit now key rl0) then [now] else [])
    \<and> (fst (check_rate_limit now key rl0) \<longleftrightarrow>
         int (length (filter (\<lambda>t. \<not> t \<le> now - of_int (window_seconds rl0)) (window_of rl0 key)))
           < max_requests rl0)"
proof -
  have all: "within_window (window_seconds rl) (window_of rl key @ ts)"
    using fresh win by simp
  note run = admit_calls_run [OF all]
  have a: "fst (admit_calls ts key rl) = replicate (nat (max_requests rl)) True @ [False]"
    using run fresh len by simp
  have c: "window_of (snd (admit_calls ts key rl)) key = butlast ts"
    using run fresh len by (simp add: butlast_conv_take)
  have b: "window_of (snd (admit_calls (take i ts) key rl)) key = take i ts"
    if "i \<le> nat (max_requests rl)" for i
  proof -
    have "within_window (window_seconds rl) (window_of rl key @ take i ts)"
      using fresh win by (simp add: within_window_take)
    from admit_calls_run [OF this] show ?thesis
      using fresh len that by (simp add: min_def)
  qed
  show ?thesis
    using a b c check_rate_limit_window [of now key rl0] check_rate_limit_admits [of now key rl0]
    by blast
qed

theorem rate_limit_window_witness:
  "within_window 60 [0, 10, 59]
   \<and> fst (admit_calls [0, 10, 59] ''key-0001''
            \<lparr>max_requests = 2, window_seconds = 60, requests = Map.empty\<rparr>) = [True, True, False]
   \<and> window_of (snd (admit_calls [0, 10, 59] ''key-0001''
            \<lparr>max_requests = 2, window_seconds = 60, requests = Map.empty\<rparr>)) ''key-0001'' = [0, 10]"
proof -
  let ?rl = "\<lparr>max_requests = 2, window_seconds = 60, requests = Map.empty\<rparr>"
  have h1: "window_of ?rl ''key-0001'' = []" by (simp add: window_of_def)
  have h2: "length [0, 10, 59 :: rat] = nat (max_requests ?rl) + 1" by simp
  have h3: "within_window (window_seconds ?rl) [0, 10, 59]" by (simp add: within_window_def)
  show ?thesis
    using rate_limit_window [OF h1 h2 h3] h3 by (simp add: numeral_2_eq_2)
qed

text \<open>
  C2 as stated fails on the boundary. A timestamp equal to \<open>now - window_seconds\<close> is not
  older than \<open>now - window_seconds\<close>, so the pruning of the claim keeps it and, with
  \<open>max_requests = 1\<close>, the length test of the claim fails; the code removes it and admits
  the call.
\<close>

theorem prune_boundary_counterexample:
  "prune_older_than 60 60 [0] = [0]
   \<and> \<not> int (length (prune_older_than 60 60 [0])) < 1
   \<and> check_rate_limit 60 ''key-0001''
        \<lparr>max_requests = 1, window_seconds = 60, requests = [''key-0001'' \<mapsto> [0]]\<rparr>
      = (True, \<lparr>max_requests = 1, window_seconds = 60, requests = [''key-0001'' \<mapsto> [60]]\<rparr>)"
  by (simp add: prune_older_than_def check_rate_limit_def)

section \<open>The pipeline, path by path\<close>

lemmas pipeline_defs =
  process_query_def process_query_try_def cache_get_def cache_set_def cache_connect_def
  get_embedding_async_def vector_store_query_def generate_answer_async_def
  record_query_def record_query_metrics_def increment_concurrent_def decrement_concurrent_def

text \<open>What each operation does to the cache content, the log and the gauge.\<close>

lemma increment_concurrent_simps:
  "redis (increment_concurrent w) = redis w"
  "redis_db (increment_concurrent w) = redis_db w"
  "trace (increment_concurrent w) = trace w @ [GaugeInc]"
  "concurrent_requests (increment_concurrent w) = concurrent_requests w + 1"
  by (simp_all add: increment_concurrent_def)

lemma decrement_concurrent_simps:
  "redis_db (decrement_concurrent w) = redis_db w"
  "trace (decrement_concurrent w) = trace w @ [GaugeDec]"
  "concurrent_requests (decrement_concurrent w) = concurrent_requests w - 1"
  by (simp_all add: decrement_concurrent_def)

lemma record_query_simps:
  "redis_db (record_query company latency hit w) = redis_db w"
  "trace (record_query company latency hit w) = trace w"
  "concurrent_requests (record_query company latency hit w) = concurrent_requests w"
  by (simp_all add: record_query_def Let_def)

lemma record_query_metrics_simps:
  "redis_db (record_query_metrics e company question latency hit api_key w) = redis_db w"
  "trace (record_query_metrics e company question latency hit api_key w) = trace w"
  "concurrent_requests (record_query_metrics e company question latency hit api_key w)
     = concurrent_requests w"
  by (simp_all add: record_query_metrics_def)

lemma get_embedding_async_simps:
  "fst (get_embedding_async e text w) = embedding_result e text"
  "redis (snd (get_embedding_async e text w)) = redis w"
  "redis_db (snd (get_embedding_async e text w)) = redis_db w"
  "trace (snd (get_embedding_async e text w)) = trace w @ [EmbeddingCall text]"
  "concurrent_requests (snd (get_embedding_async e text w)) = concurrent_requests w"
  by (simp_all add: get_embedding_async_def)

lemma vector_store_query_simps:
  "fst (vector_store_query e emb company w) = vector_result e emb company"
  "redis (snd (vector_store_query e emb company w)) = redis w"
  "redis_db (snd (vector_store_query e emb company w)) = redis_db w"
  "trace (snd (vector_store_query e emb company w)) = trace w @ [VectorQuery emb company]"
  "concurrent_requests (snd (vector_store_query e emb company w)) = concurrent_requests w"
  by (simp_all add: vector_store_query_def)

lemma generate_answer_async_simps:
  "fst (generate_answer_async e context question w) = completion_result e context question"
  "redis (snd (generate_answer_async e context question w)) = redis w"
  "redis_db (snd (generate_answer_async e context question w)) = redis_db w"
  "trace (snd (generate_answer_async e context question w))
     = trace w @ [CompletionCall context question]"
  "concurrent_requests (snd (generate_answer_async e context question w)) = concurrent_requests w"
  by (simp_all add: generate_answer_async_def)

lemma cache_get_gauge:
  "concurrent_requests (snd (cache_get e key w)) = concurrent_requests w"
  by (simp add: cache_get_def cache_connect_def Let_def split: option.splits exn.splits)

lemma cache_set_gauge:
  "concurrent_requests (snd (cache_set e key v rt w)) = concurrent_requests w"
  by (simp add: cache_set_def cache_connect_def Let_def split: option.splits exn.splits)

lemma cache_get_redis_db: "redis_db (snd (cache_get e key w)) = redis_db w"
  by (simp add: cache_get_def cache_connect_def Let_def split: option.splits exn.splits)

lemma cache_get_increment:
  "fst (cache_get e key (increment_concurrent w)) = fst (cache_get e key w)"
  by (simp add: cache_get_def cache_connect_def increment_concurrent_def Let_def
      split: option.splits exn.splits)

lemma cache_get_returns:
  assumes "fst (cache_get e key w) = Inr r"
  shows "redis (snd (cache_get e key w))"
    and "trace (snd (cache_get e key w)) = trace w @ [RedisGet key]"
  using assms
  by (auto simp add: cache_get_def cache_connect_def Let_def split: option.splits exn.splits if_splits)

lemma cache_set_connected:
  assumes "redis w"
  shows "trace (snd (cache_set e key v rt w))
           = trace w @ [RedisSetex key (if rt then CACHE_TTL_REALTIME e else CACHE_TTL_HISTORICAL e) v]"
    and "redis_setex_error e = None \<Longrightarrow>
         redis_db (snd (cache_set e key v rt w)) key
           = Some (v, if rt then CACHE_TTL_REALTIME e else CACHE_TTL_HISTORICAL e)"
  using assms
  by (auto simp add: cache_set_def Let_def split: option.splits exn.splits)

lemma process_query_snd:
  "snd (process_query e company question api_key w)
     = decrement_concurrent
         (snd (process_query_try e company question api_key (increment_concurrent w)))"
  by (simp add: process_query_def Let_def split_beta split: sum.splits exn.splits)

lemma process_query_fst:
  "fst (process_query e company question api_key w)
     = (case fst (process_query_try e company question api_key (increment_concurrent w)) of
          Inr result \<Rightarrow> Inr result
        | Inl (Exception msg) \<Rightarrow>
            Inr \<lparr>answer = error_answer, source = ''error'',
                 latency_seconds = clock_end e - clock_start e, error = Some msg\<rparr>
        | Inl (BaseException msg) \<Rightarrow> Inl (BaseException msg))"
  by (simp add: process_query_def Let_def split_beta split: sum.splits exn.splits)

text \<open>
  The paths through \<open>process_query\<close> after a cache miss: an answer is generated, the embedding
  call raises, the completion call raises.
\<close>

lemma generated_path:
  assumes "fst (cache_get e (get_cache_key company question) w) = Inr None"
    and "embedding_result e question = Inr emb"
    and "vector_result e emb company = Inr matches"
    and "matches \<noteq> []"
    and "completion_result e (build_context matches) question = Inr generated"
  shows "trace (snd (process_query e company question api_key w)) =
           trace w @ [GaugeInc, RedisGet (get_cache_key company question), EmbeddingCall question,
                      VectorQuery emb company, CompletionCall (build_context matches) question,
                      RedisSetex (get_cache_key company question)
                        (if is_real_time_query question then CACHE_TTL_REALTIME e
                         else CACHE_TTL_HISTORICAL e) generated,
                      GaugeDec]"
    and "redis_setex_error e = None \<Longrightarrow>
         redis_db (snd (process_query e company question api_key w)) (get_cache_key company question)
           = Some (generated, if is_real_time_query question then CACHE_TTL_REALTIME e
                               else CACHE_TTL_HISTORICAL e)"
proof -
  let ?k = "get_cache_key company question"
  let ?w0 = "increment_concurrent w"
  have m: "fst (cache_get e ?k ?w0) = Inr None"
    using assms(1) by (simp add: cache_get_increment)
  note g = cache_get_returns [OF m]
  show "trace (snd (process_query e company question api_key w)) =
           trace w @ [GaugeInc, RedisGet ?k, EmbeddingCall question,
                      VectorQuery emb company, CompletionCall (build_context matches) question,
                      RedisSetex ?k
                        (if is_real_time_query question then CACHE_TTL_REALTIME e
                         else CACHE_TTL_HISTORICAL e) generated,
                      GaugeDec]"
    using assms(2-5) m g
    by (simp add: process_query_snd process_query_try_def Let_def split_beta
        get_embedding_async_simps vector_store_query_simps generate_answer_async_simps
        record_query_simps record_query_metrics_simps increment_concurrent_simps
        decrement_concurrent_simps cache_set_connected split: sum.splits)
  show "redis_db (snd (process_query e company question api_key w)) ?k
           = Some (generated, if is_real_time_query question then CACHE_TTL_REALTIME e
                               else CACHE_TTL_HISTORICAL e)"
    if "redis_setex_error e = None"
    using assms(2-5) m g that
    by (simp add: process_query_snd process_query_try_def Let_def split_beta
        get_embedding_async_simps vector_store_query_simps generate_answer_async_simps
        record_query_simps record_query_metrics_simps increment_concurrent_simps
        decrement_concurrent_simps cache_set_connected split: sum.splits)
qed

lemma embedding_raises_path:
  assumes "fst (cache_get e (get_cache_key company question) w) = Inr None"
    and "embedding_result e question = Inl x"
  shows "fst (process_query e company question api_key w) =
           (case x of
              Exception msg \<Rightarrow>
                Inr \<lparr>answer = error_answer, source = ''error'',
                     latency_seconds = clock_end e - clock_start e, error = Some msg\<rparr>
            | BaseException msg \<Rightarrow> Inl (BaseException msg))"
    and "trace (snd (process_query e company question api_key w)) =
           trace w @ [GaugeInc, RedisGet (get_cache_key company question), EmbeddingCall question,
                      GaugeDec]"
    and "redis_db (snd (process_query e company question api_key w)) = redis_db w"
  using assms
  by (auto simp add: pipeline_defs Let_def split: option.splits if_splits prod.splits sum.splits exn.splits)

lemma completion_raises_path:
  assumes "fst (cache_get e (get_cache_key company question) w) = Inr None"
    and "embedding_result e question = Inr emb"
    and "vector_result e emb company = Inr matches"
    and "matches \<noteq> []"
    and "completion_result e (build_context matches) question = Inl x"
  shows "fst (process_query e company question api_key w) =
           (case x of
              Exception msg \<Rightarrow>
                Inr \<lparr>answer = error_answer, source = ''error'',
                     latency_seconds = clock_end e - clock_start e, error = Some msg\<rparr>
            | BaseException msg \<Rightarrow> Inl (BaseException msg))"
    and "trace (snd (process_query e company question api_key w)) =
           trace w @ [GaugeInc, RedisGet (get_cache_key company question), EmbeddingCall question,
                      VectorQuery emb company, CompletionCall (build_context matches) question,
                      GaugeDec]"
    and "redis_db (snd (process_query e company question api_key w)) = redis_db w"
  using assms
  by (auto simp add: pipeline_defs Let_def split: option.splits if_splits prod.splits sum.splits exn.splits)

text \<open>The \<open>try\<close> statement leaves the gauge alone, and a schedule moves it by its entries and exits.\<close>

lemma quiet_refl: "extends_quietly w w"
  by (simp add: extends_quietly_def)

lemma quiet_steps:
  "extends_quietly w w1 \<Longrightarrow> extends_quietly w (snd (cache_get e key w1))"
  "extends_quietly w w1 \<Longrightarrow> extends_quietly w (snd (cache_set e key v rt w1))"
  "extends_quietly w w1 \<Longrightarrow> extends_quietly w (snd (get_embedding_async e text w1))"
  "extends_quietly w w1 \<Longrightarrow> extends_quietly w (snd (vector_store_query e emb company w1))"
  "extends_quietly w w1 \<Longrightarrow> extends_quietly w (snd (generate_answer_async e context question w1))"
  "extends_quietly w w1 \<Longrightarrow> extends_quietly w (record_query company latency hit w1)"
  "extends_quietly w w1 \<Longrightarrow>
     extends_quietly w (record_query_metrics e company question latency hit api_key w1)"
  by (auto simp add: extends_quietly_def cache_get_def cache_set_def cache_connect_def
      get_embedding_async_def vector_store_query_def generate_answer_async_def
      record_query_def record_query_metrics_def Let_def split: option.splits exn.splits)

lemma try_gauge:
  "concurrent_requests (snd (process_query_try e company question api_key w)) = concurrent_requests w"
  by (simp add: process_query_try_def Let_def split_beta cache_get_gauge cache_set_gauge
      get_embedding_async_simps vector_store_query_simps generate_answer_async_simps
      record_query_simps record_query_metrics_simps split: sum.splits)

lemma try_quiet: "extends_quietly w (snd (process_query_try e company question api_key w))"
  by (simp add: process_query_try_def Let_def split_beta split: sum.splits)
     (intro conjI impI allI quiet_steps quiet_refl)

lemma try_trace:
  "\<exists>evs. trace (snd (process_query_try e company question api_key w)) = trace w @ evs
     \<and> GaugeInc \<notin> set evs \<and> GaugeDec \<notin> set evs"
  using try_quiet [of w e company question api_key] by (simp add: extends_quietly_def)

lemma process_query_schedule:
  "snd (process_query e company question api_key w) =
     run_schedule [Enter, Try e company question api_key, Exit] w"
  by (simp add: process_query_def Let_def split: prod.splits sum.splits exn.splits)

lemma run_schedule_gauge:
  "concurrent_requests (run_schedule s w) =
     concurrent_requests w + int (count_list s Enter) - int (count_list s Exit)"
proof (induction s arbitrary: w)
  case Nil
  then show ?case by simp
next
  case (Cons p ps)
  show ?case
    by (cases p) (simp_all add: Cons.IH try_gauge increment_concurrent_def decrement_concurrent_def)
qed

text \<open>The indicators are looked for in the lower-cased question.\<close>

lemma scan_indicators_iff: "scan_indicators ms s \<longleftrightarrow> (\<exists>m \<in> set ms. sublist m s)"
  by (induction ms) auto

lemma sublist_lower_iff:
  "sublist m (lower q) \<longleftrightarrow> (\<exists>pre u suf. q = pre @ u @ suf \<and> lower u = m)"
proof
  assume "sublist m (lower q)"
  then obtain ps ss where "map lower_char q = ps @ m @ ss"
    by (auto simp add: sublist_def lower_def)
  then obtain pre rest where q1: "q = pre @ rest" and "map lower_char rest = m @ ss"
    by (metis map_eq_append_conv)
  then obtain u suf where "rest = u @ suf" and "map lower_char u = m"
    by (metis map_eq_append_conv)
  with q1 show "\<exists>pre u suf. q = pre @ u @ suf \<and> lower u = m"
    by (auto simp add: lower_def)
next
  assume "\<exists>pre u suf. q = pre @ u @ suf \<and> lower u = m"
  then obtain pre u suf where "q = pre @ u @ suf" and "lower u = m" by blast
  then have "lower q = lower pre @ m @ lower suf" by (simp add: lower_def)
  then show "sublist m (lower q)" by simp
qed

lemma is_real_time_query_iff:
  "is_real_time_query question \<longleftrightarrow>
     (\<exists>m \<in> set real_time_indicators. \<exists>pre u suf. question = pre @ u @ suf \<and> lower u = m)"
  by (simp add: is_real_time_query_def Let_def scan_indicators_iff sublist_lower_iff)

section \<open>The claims about the pipeline\<close>

text \<open>
  C1. The code does not do what the claim says. With one match of similarity 0.65 the list of
  matches is not empty, so the only test for insufficient information
  (\<open>if not matches\<close>) does not fire; \<open>_build_context\<close> drops the match and returns the
  empty string; the completion is called with that empty context, and its answer, not the
  fixed insufficient-information answer, is returned and written to the cache.
\<close>

theorem below_floor_still_generates:
  "score weak_match = Some (65 / 100)
   \<and> vector_result env_weak [1] ''Apple'' = Inr [weak_match]
   \<and> build_context [weak_match] = []
   \<and> fst (process_query env_weak ''Apple'' ''What is Revenue?'' ''key-0001'' (initial_world 0))
     = Inr \<lparr>answer = ''Revenue was 10.'', source = ''generated'', latency_seconds = 2, error = None\<rparr>
   \<and> ''Revenue was 10.'' \<noteq> insufficient_answer ''Apple''
   \<and> trace (snd (process_query env_weak ''Apple'' ''What is Revenue?'' ''key-0001'' (initial_world 0)))
     = [GaugeInc, RedisGet ''financial_rag:Apple:what is revenue?'', EmbeddingCall ''What is Revenue?'',
        VectorQuery [1] ''Apple'', CompletionCall [] ''What is Revenue?'',
        RedisSetex ''financial_rag:Apple:what is revenue?'' 86400 ''Revenue was 10.'', GaugeDec]
   \<and> redis_db (snd (process_query env_weak ''Apple'' ''What is Revenue?'' ''key-0001'' (initial_world 0)))
        ''financial_rag:Apple:what is revenue?''
     = Some (''Revenue was 10.'', 86400)"
proof -
  have a: "score weak_match = Some (65 / 100)" by (simp add: weak_match_def)
  have b: "vector_result env_weak [1] ''Apple'' = Inr [weak_match]"
    by (simp add: env_weak_def sample_env_def)
  have c: "build_context [weak_match] = []" by code_simp
  have d: "fst (process_query env_weak ''Apple'' ''What is Revenue?'' ''key-0001'' (initial_world 0))
     = Inr \<lparr>answer = ''Revenue was 10.'', source = ''generated'', latency_seconds = 2, error = None\<rparr>"
    by code_simp
  have e: "''Revenue was 10.'' \<noteq> insufficient_answer ''Apple''" by code_simp
  have f: "trace (snd (process_query env_weak ''Apple'' ''What is Revenue?'' ''key-0001'' (initial_world 0)))
     = [GaugeInc, RedisGet ''financial_rag:Apple:what is revenue?'', EmbeddingCall ''What is Revenue?'',
        VectorQuery [1] ''Apple'', CompletionCall [] ''What is Revenue?'',
        RedisSetex ''financial_rag:Apple:what is revenue?'' 86400 ''Revenue was 10.'', GaugeDec]"
    by code_simp
  have g: "redis_db (snd (process_query env_weak ''Apple'' ''What is Revenue?'' ''key-0001'' (initial_world 0)))
        ''financial_rag:Apple:what is revenue?''
     = Some (''Revenue was 10.'', 86400)"
    by code_simp
  show ?thesis using a b c d e f g by blast
qed

text \<open>
  C3, as amended. When the cache lookup misses, the embedding succeeds and the vector search
  returns no match, \<open>process_query\<close> returns the fixed insufficient-information answer with
  source \<open>generated\<close> and no error detail; the cache content is unchanged, and between the
  two gauge operations the only calls are the Redis \<open>get\<close>, the embedding and the vector
  query: no completion, no \<open>setex\<close>.
\<close>

theorem no_matches_result:
  assumes "fst (cache_get e (get_cache_key company question) w) = Inr None"
    and "embedding_result e question = Inr emb"
    and "vector_result e emb company = Inr []"
  shows "fst (process_query e company question api_key w) =
           Inr \<lparr>answer = insufficient_answer company, source = ''generated'',
                latency_seconds = clock_end e - clock_start e, error = None\<rparr>
       \<and> redis_db (snd (process_query e company question api_key w)) = redis_db w
       \<and> trace (snd (process_query e company question api_key w)) =
           trace w @ [GaugeInc, RedisGet (get_cache_key company question), EmbeddingCall question,
                      VectorQuery emb company, GaugeDec]"
  using assms
  by (auto simp add: pipeline_defs Let_def split: option.splits if_splits prod.splits sum.splits exn.splits)

theorem no_matches_result_witness:
  "fst (cache_get sample_env (get_cache_key ''Apple'' ''What is Revenue?'') (initial_world 0)) = Inr None
   \<and> vector_result sample_env [1] ''Apple'' = Inr []
   \<and> fst (process_query sample_env ''Apple'' ''What is Revenue?'' ''key-0001'' (initial_world 0)) =
       Inr \<lparr>answer = insufficient_answer ''Apple'', source = ''generated'',
            latency_seconds = 2, error = None\<rparr>
   \<and> redis_db (snd (process_query sample_env ''Apple'' ''What is Revenue?'' ''key-0001''
        (initial_world 0))) = Map.empty"
proof -
  have h1: "fst (cache_get sample_env (get_cache_key ''Apple'' ''What is Revenue?'') (initial_world 0))
              = Inr None" by code_simp
  have h2: "embedding_result sample_env ''What is Revenue?'' = Inr [1]" by (simp add: sample_env_def)
  have h3: "vector_result sample_env [1] ''Apple'' = Inr []" by (simp add: sample_env_def)
  have c: "clock_end sample_env - clock_start sample_env = 2" by (simp add: sample_env_def)
  have r: "redis_db (initial_world 0) = Map.empty" by (simp add: initial_world_def)
  show ?thesis
    using no_matches_result [OF h1 h2 h3, of "''key-0001''"] h1 h3 c r by simp
qed

text \<open>
  C3 as stated fails on the source field: with no match the source of the result is
  \<open>generated\<close>, which the claim excludes. The code has no source for insufficient
  information: its sources are \<open>cache\<close>, \<open>generated\<close> and \<open>error\<close>.
\<close>

theorem no_matches_source_counterexample:
  "vector_result sample_env [1] ''Apple'' = Inr []
   \<and> map_sum id source
         (fst (process_query sample_env ''Apple'' ''What is Revenue?'' ''key-0001'' (initial_world 0)))
       = Inr ''generated''"
proof -
  have a: "vector_result sample_env [1] ''Apple'' = Inr []" by (simp add: sample_env_def)
  have b: "fst (process_query sample_env ''Apple'' ''What is Revenue?'' ''key-0001''
             (initial_world 0))
       = Inr \<lparr>answer = insufficient_answer ''Apple'', source = ''generated'',
              latency_seconds = 2, error = None\<rparr>" by code_simp
  have c: "map_sum id source
         (fst (process_query sample_env ''Apple'' ''What is Revenue?'' ''key-0001'' (initial_world 0)))
       = Inr ''generated''" unfolding b by simp
  show ?thesis using a c by (rule conjI)
qed

text \<open>
  C8. Every execution of \<open>process_query\<close>, whatever the outside does, leaves the gauge at
  the value it found: the events it adds to the log start with the one increment and end with
  the one decrement, with neither of them in between, and the \<open>try\<close> statement in between
  leaves the gauge as it is. An execution is the schedule of its entry, its \<open>try\<close> statement
  and its exit; and a schedule of overlapping requests in which as many requests have left as
  have entered ends with the gauge where it started.
\<close>

theorem gauge_balanced:
  "concurrent_requests (snd (process_query e company question api_key w)) = concurrent_requests w
   \<and> (\<exists>evs. trace (snd (process_query e company question api_key w))
                = trace w @ [GaugeInc] @ evs @ [GaugeDec]
              \<and> GaugeInc \<notin> set evs \<and> GaugeDec \<notin> set evs)
   \<and> concurrent_requests (snd (process_query_try e company question api_key w)) = concurrent_requests w
   \<and> snd (process_query e company question api_key w)
        = run_schedule [Enter, Try e company question api_key, Exit] w
   \<and> (count_list s Enter = count_list s Exit \<longrightarrow>
        concurrent_requests (run_schedule s w) = concurrent_requests w)"
proof -
  let ?w0 = "increment_concurrent w"
  obtain evs where evs: "trace (snd (process_query_try e company question api_key ?w0)) = trace ?w0 @ evs"
      "GaugeInc \<notin> set evs" "GaugeDec \<notin> set evs"
    using try_trace by blast
  have sn: "snd (process_query e company question api_key w)
      = decrement_concurrent (snd (process_query_try e company question api_key ?w0))"
    by (simp add: process_query_def Let_def split: prod.splits sum.splits exn.splits)
  have g: "concurrent_requests (snd (process_query e company question api_key w)) = concurrent_requests w"
    unfolding sn by (simp add: decrement_concurrent_def try_gauge) (simp add: increment_concurrent_def)
  have t: "trace (snd (process_query e company question api_key w)) = trace w @ [GaugeInc] @ evs @ [GaugeDec]"
    unfolding sn by (simp add: decrement_concurrent_def evs(1)) (simp add: increment_concurrent_def)
  show ?thesis
    using g t evs(2,3) try_gauge process_query_schedule run_schedule_gauge [of s w]
    by auto
qed

theorem gauge_balanced_witness:
  "count_list [Enter, Enter, Try env_strong ''Apple'' ''What is Revenue?'' ''key-0001'', Exit,
               Try sample_env ''Tesla'' ''What is Revenue?'' ''key-0002'', Exit] Enter = 2
   \<and> concurrent_requests (run_schedule
        [Enter, Enter, Try env_strong ''Apple'' ''What is Revenue?'' ''key-0001'', Exit,
         Try sample_env ''Tesla'' ''What is Revenue?'' ''key-0002'', Exit] (initial_world 0)) = 0
   \<and> concurrent_requests (snd (process_query
        (env_strong\<lparr>completion_result := (\<lambda>context question. Inl (Exception ''timeout''))\<rparr>)
        ''Apple'' ''What is Revenue?'' ''key-0001'' (initial_world 0))) = 0"
proof -
  let ?s = "[Enter, Enter, Try env_strong ''Apple'' ''What is Revenue?'' ''key-0001'', Exit,
             Try sample_env ''Tesla'' ''What is Revenue?'' ''key-0002'', Exit]"
  let ?e = "env_strong\<lparr>completion_result := (\<lambda>context question. Inl (Exception ''timeout''))\<rparr>"
  have h: "count_list ?s Enter = 2" "count_list ?s Exit = 2" by simp_all
  then have hh: "count_list ?s Enter = count_list ?s Exit" by (simp only:)
  have z: "concurrent_requests (initial_world 0) = 0" by (simp add: initial_world_def)
  note g = gauge_balanced [of ?e "''Apple''" "''What is Revenue?''" "''key-0001''" "initial_world 0" ?s]
  from g have a: "concurrent_requests (snd (process_query ?e ''Apple'' ''What is Revenue?'' ''key-0001''
      (initial_world 0))) = concurrent_requests (initial_world 0)" by (rule conjunct1)
  from g hh have b: "concurrent_requests (run_schedule ?s (initial_world 0))
      = concurrent_requests (initial_world 0)" by blast
  show ?thesis using h(1) a b unfolding z by blast
qed

text \<open>
  C6, as amended. After a cache miss, when the embedding call raises, or when it succeeds, the
  vector search finds matches and the completion call raises: if what is raised is an
  \<open>Exception\<close>, \<open>process_query\<close> returns the result with source \<open>error\<close>, the fixed
  message and the message of the exception as error detail; if it is not (a cancellation, for
  one), \<open>process_query\<close> raises it to the caller. In both cases the log shows the failing
  call once and no \<open>setex\<close>, and the cache content is unchanged.
\<close>

theorem provider_error_result:
  assumes "fst (cache_get e (get_cache_key company question) w) = Inr None"
  shows "(embedding_result e question = Inl x \<longrightarrow>
            fst (process_query e company question api_key w) =
              (case x of
                 Exception msg \<Rightarrow>
                   Inr \<lparr>answer = ''Sorry, I encountered an error while processing your question.'',
                        source = ''error'',
                        latency_seconds = clock_end e - clock_start e, error = Some msg\<rparr>
               | BaseException msg \<Rightarrow> Inl (BaseException msg))
          \<and> trace (snd (process_query e company question api_key w)) =
              trace w @ [GaugeInc, RedisGet (get_cache_key company question),
                         EmbeddingCall question, GaugeDec]
          \<and> redis_db (snd (process_query e company question api_key w)) = redis_db w)
       \<and> (embedding_result e question = Inr emb \<and> vector_result e emb company = Inr matches
            \<and> matches \<noteq> [] \<and> completion_result e (build_context matches) question = Inl x \<longrightarrow>
            fst (process_query e company question api_key w) =
              (case x of
                 Exception msg \<Rightarrow>
                   Inr \<lparr>answer = ''Sorry, I encountered an error while processing your question.'',
                        source = ''error'',
                        latency_seconds = clock_end e - clock_start e, error = Some msg\<rparr>
               | BaseException msg \<Rightarrow> Inl (BaseException msg))
          \<and> trace (snd (process_query e company question api_key w)) =
              trace w @ [GaugeInc, RedisGet (get_cache_key company question),
                         EmbeddingCall question, VectorQuery emb company,
                         CompletionCall (build_context matches) question, GaugeDec]
          \<and> redis_db (snd (process_query e company question api_key w)) = redis_db w)"
proof (rule conjI; rule impI)
  assume f: "embedding_result e question = Inl x"
  note p = embedding_raises_path [OF assms f, of api_key, unfolded error_answer_def]
  show "fst (process_query e company question api_key w) =
              (case x of
                 Exception msg \<Rightarrow>
                   Inr \<lparr>answer = ''Sorry, I encountered an error while processing your question.'',
                        source = ''error'',
                        latency_seconds = clock_end e - clock_start e, error = Some msg\<rparr>
               | BaseException msg \<Rightarrow> Inl (BaseException msg))
          \<and> trace (snd (process_query e company question api_key w)) =
              trace w @ [GaugeInc, RedisGet (get_cache_key company question),
                         EmbeddingCall question, GaugeDec]
          \<and> redis_db (snd (process_query e company question api_key w)) = redis_db w"
    by (intro conjI) (rule p)+
next
  assume f: "embedding_result e question = Inr emb \<and> vector_result e emb company = Inr matches
            \<and> matches \<noteq> [] \<and> completion_result e (build_context matches) question = Inl x"
  then have f1: "embedding_result e question = Inr emb"
    and f2: "vector_result e emb company = Inr matches"
    and f3: "matches \<noteq> []"
    and f4: "completion_result e (build_context matches) question = Inl x"
    by blast+
  note p = completion_raises_path [OF assms f1 f2 f3 f4, of api_key, unfolded error_answer_def]
  show "fst (process_query e company question api_key w) =
              (case x of
                 Exception msg \<Rightarrow>
                   Inr \<lparr>answer = ''Sorry, I encountered an error while processing your question.'',
                        source = ''error'',
                        latency_seconds = clock_end e - clock_start e, error = Some msg\<rparr>
               | BaseException msg \<Rightarrow> Inl (BaseException msg))
          \<and> trace (snd (process_query e company question api_key w)) =
              trace w @ [GaugeInc, RedisGet (get_cache_key company question),
                         EmbeddingCall question, VectorQuery emb company,
                         CompletionCall (build_context matches) question, GaugeDec]
          \<and> redis_db (snd (process_query e company question api_key w)) = redis_db w"
    by (intro conjI) (rule p)+
qed

theorem provider_error_result_witness:
  "fst (process_query (env_strong\<lparr>embedding_result := (\<lambda>text. Inl (Exception ''embedding timeout''))\<rparr>)
          ''Apple'' ''What is Revenue?'' ''key-0001'' (initial_world 0)) =
     Inr \<lparr>answer = ''Sorry, I encountered an error while processing your question.'',
          source = ''error'', latency_seconds = 2, error = Some ''embedding timeout''\<rparr>
   \<and> fst (process_query
          (env_strong\<lparr>completion_result := (\<lambda>context question. Inl (Exception ''rate limited''))\<rparr>)
          ''Apple'' ''What is Revenue?'' ''key-0001'' (initial_world 0)) =
     Inr \<lparr>answer = ''Sorry, I encountered an error while processing your question.'',
          source = ''error'', latency_seconds = 2, error = Some ''rate limited''\<rparr>
   \<and> redis_db (snd (process_query
          (env_strong\<lparr>completion_result := (\<lambda>context question. Inl (Exception ''rate limited''))\<rparr>)
          ''Apple'' ''What is Revenue?'' ''key-0001'' (initial_world 0))) = Map.empty"
proof -
  let ?e1 = "env_strong\<lparr>embedding_result := (\<lambda>text. Inl (Exception ''embedding timeout''))\<rparr>"
  let ?e2 = "env_strong\<lparr>completion_result := (\<lambda>context question. Inl (Exception ''rate limited''))\<rparr>"
  have m1: "fst (cache_get ?e1 (get_cache_key ''Apple'' ''What is Revenue?'') (initial_world 0)) = Inr None"
    by code_simp
  have m2: "fst (cache_get ?e2 (get_cache_key ''Apple'' ''What is Revenue?'') (initial_world 0)) = Inr None"
    by code_simp
  have f1: "embedding_result ?e1 ''What is Revenue?'' = Inl (Exception ''embedding timeout'')"
    by (simp add: env_strong_def)
  have f2: "embedding_result ?e2 ''What is Revenue?'' = Inr [1]
      \<and> vector_result ?e2 [1] ''Apple'' = Inr [strong_match] \<and> [strong_match] \<noteq> []
      \<and> completion_result ?e2 (build_context [strong_match]) ''What is Revenue?''
          = Inl (Exception ''rate limited'')"
    by (simp add: env_strong_def sample_env_def)
  have c: "clock_end ?e1 - clock_start ?e1 = 2" "clock_end ?e2 - clock_start ?e2 = 2"
    by (simp_all add: env_strong_def sample_env_def)
  have r: "redis_db (initial_world 0) = Map.empty" by (simp add: initial_world_def)
  from provider_error_result [OF m1, where x = "Exception ''embedding timeout''"
      and api_key = "''key-0001''"] f1
  have a: "fst (process_query ?e1 ''Apple'' ''What is Revenue?'' ''key-0001'' (initial_world 0)) =
      (case Exception ''embedding timeout'' of
         Exception msg \<Rightarrow>
           Inr \<lparr>answer = ''Sorry, I encountered an error while processing your question.'',
                source = ''error'',
                latency_seconds = clock_end ?e1 - clock_start ?e1, error = Some msg\<rparr>
       | BaseException msg \<Rightarrow> Inl (BaseException msg))"
    by blast
  from provider_error_result [OF m2, where x = "Exception ''rate limited''"
      and api_key = "''key-0001''" and emb = "[1]" and matches = "[strong_match]"] f2
  have b: "fst (process_query ?e2 ''Apple'' ''What is Revenue?'' ''key-0001'' (initial_world 0)) =
      (case Exception ''rate limited'' of
         Exception msg \<Rightarrow>
           Inr \<lparr>answer = ''Sorry, I encountered an error while processing your question.'',
                source = ''error'',
                latency_seconds = clock_end ?e2 - clock_start ?e2, error = Some msg\<rparr>
       | BaseException msg \<Rightarrow> Inl (BaseException msg))
    \<and> redis_db (snd (process_query ?e2 ''Apple'' ''What is Revenue?'' ''key-0001'' (initial_world 0)))
       = redis_db (initial_world 0)"
    by blast
  show ?thesis using a b unfolding exn.case c r by blast
qed

text \<open>
  C6 as stated fails for what \<open>except Exception\<close> does not catch: when the embedding call is
  cancelled while it is awaited, \<open>process_query\<close> raises the cancellation to the caller
  instead of returning a result.
\<close>

theorem cancelled_call_counterexample:
  "embedding_result
      (env_strong\<lparr>embedding_result := (\<lambda>text. Inl (BaseException ''CancelledError''))\<rparr>)
      ''What is Revenue?'' = Inl (BaseException ''CancelledError'')
   \<and> fst (process_query
        (env_strong\<lparr>embedding_result := (\<lambda>text. Inl (BaseException ''CancelledError''))\<rparr>)
        ''Apple'' ''What is Revenue?'' ''key-0001'' (initial_world 0))
      = Inl (BaseException ''CancelledError'')"
  by code_simp

text \<open>
  C7. A question is real-time exactly when some part of it is, after lower-casing, one of the
  indicators, among them \<open>current\<close>, \<open>latest\<close>, \<open>today\<close> and \<open>this quarter\<close>; changing the
  letter case of the question does not change the class. The cache write that follows a
  generated answer is a \<open>setex\<close> with \<open>CACHE_TTL_REALTIME\<close> for a real-time question and with
  \<open>CACHE_TTL_HISTORICAL\<close> otherwise, and unless that \<open>setex\<close> fails the entry carries this TTL.
\<close>

theorem freshness_classification:
  "(is_real_time_query question \<longleftrightarrow>
      (\<exists>m \<in> set real_time_indicators. \<exists>pre u suf. question = pre @ u @ suf \<and> lower u = m))
   \<and> ''current'' \<in> set real_time_indicators \<and> ''latest'' \<in> set real_time_indicators
   \<and> ''today'' \<in> set real_time_indicators \<and> ''this quarter'' \<in> set real_time_indicators
   \<and> (list_all2 case_variant question question' \<longrightarrow>
        is_real_time_query question' = is_real_time_query question)
   \<and> (fst (cache_get e (get_cache_key company question) w) = Inr None
        \<and> embedding_result e question = Inr emb \<and> vector_result e emb company = Inr matches
        \<and> matches \<noteq> [] \<and> completion_result e (build_context matches) question = Inr generated \<longrightarrow>
        trace (snd (process_query e company question api_key w)) =
          trace w @ [GaugeInc, RedisGet (get_cache_key company question), EmbeddingCall question,
                     VectorQuery emb company, CompletionCall (build_context matches) question,
                     RedisSetex (get_cache_key company question)
                       (if is_real_time_query question then CACHE_TTL_REALTIME e
                        else CACHE_TTL_HISTORICAL e) generated,
                     GaugeDec]
        \<and> (redis_setex_error e = None \<longrightarrow>
             redis_db (snd (process_query e company question api_key w))
               (get_cache_key company question)
             = Some (generated, if is_real_time_query question then CACHE_TTL_REALTIME e
                                else CACHE_TTL_HISTORICAL e)))"
proof -
  have a: "list_all2 case_variant question question' \<longrightarrow>
        is_real_time_query question' = is_real_time_query question"
    by (auto simp add: is_real_time_query_def Let_def dest: case_variant_lower)
  have b: "''current'' \<in> set real_time_indicators \<and> ''latest'' \<in> set real_time_indicators
   \<and> ''today'' \<in> set real_time_indicators \<and> ''this quarter'' \<in> set real_time_indicators"
    by (simp add: real_time_indicators_def)
  have c: "trace (snd (process_query e company question api_key w)) =
          trace w @ [GaugeInc, RedisGet (get_cache_key company question), EmbeddingCall question,
                     VectorQuery emb company, CompletionCall (build_context matches) question,
                     RedisSetex (get_cache_key company question)
                       (if is_real_time_query question then CACHE_TTL_REALTIME e
                        else CACHE_TTL_HISTORICAL e) generated,
                     GaugeDec]
        \<and> (redis_setex_error e = None \<longrightarrow>
             redis_db (snd (process_query e company question api_key w))
               (get_cache_key company question)
             = Some (generated, if is_real_time_query question then CACHE_TTL_REALTIME e
                                else CACHE_TTL_HISTORICAL e))"
    if f: "fst (cache_get e (get_cache_key company question) w) = Inr None
        \<and> embedding_result e question = Inr emb \<and> vector_result e emb company = Inr matches
        \<and> matches \<noteq> [] \<and> completion_result e (build_context matches) question = Inr generated"
  proof -
    from f have f0: "fst (cache_get e (get_cache_key company question) w) = Inr None"
      and f1: "embedding_result e question = Inr emb"
      and f2: "vector_result e emb company = Inr matches"
      and f3: "matches \<noteq> []"
      and f4: "completion_result e (build_context matches) question = Inr generated"
      by blast+
    note p2 = generated_path(1) [OF f0 f1 f2 f3 f4, of api_key]
    note p3 = generated_path(2) [OF f0 f1 f2 f3 f4, of api_key]
    show ?thesis
    proof (intro conjI impI)
      show "trace (snd (process_query e company question api_key w)) =
          trace w @ [GaugeInc, RedisGet (get_cache_key company question), EmbeddingCall question,
                     VectorQuery emb company, CompletionCall (build_context matches) question,
                     RedisSetex (get_cache_key company question)
                       (if is_real_time_query question then CACHE_TTL_REALTIME e
                        else CACHE_TTL_HISTORICAL e) generated,
                     GaugeDec]" by (rule p2)
    next
      assume "redis_setex_error e = None"
      then show "redis_db (snd (process_query e company question api_key w))
               (get_cache_key company question)
             = Some (generated, if is_real_time_query question then CACHE_TTL_REALTIME e
                                else CACHE_TTL_HISTORICAL e)" by (rule p3)
    qed
  qed
  note d = is_real_time_query_iff [of question]
  show ?thesis
    apply (intro conjI)
          apply (rule d)
         apply (rule b [THEN conjunct1])
        apply (rule b [THEN conjunct2, THEN conjunct1])
       apply (rule b [THEN conjunct2, THEN conjunct2, THEN conjunct1])
      apply (rule b [THEN conjunct2, THEN conjunct2, THEN conjunct2])
     apply (rule a)
    apply (rule impI)
    apply (erule c)
    done
qed

theorem freshness_classification_witness:
  "is_real_time_query ''What is the Current revenue?''
   \<and> \<not> is_real_time_query ''What is the revenue?''
   \<and> redis_db (snd (process_query env_strong ''Apple'' ''What is the Current revenue?'' ''key-0001''
        (initial_world 0))) (get_cache_key ''Apple'' ''What is the Current revenue?'')
       = Some (''Revenue was 10.'', 3600)
   \<and> redis_db (snd (process_query env_strong ''Apple'' ''What is the revenue?'' ''key-0001''
        (initial_world 0))) (get_cache_key ''Apple'' ''What is the revenue?'')
       = Some (''Revenue was 10.'', 86400)"
proof -
  let ?q1 = "''What is the Current revenue?''"
  let ?q2 = "''What is the revenue?''"
  have r1: "is_real_time_query ?q1" by code_simp
  have r2: "\<not> is_real_time_query ?q2" by code_simp
  have m1: "fst (cache_get env_strong (get_cache_key ''Apple'' ?q1) (initial_world 0)) = Inr None"
    by code_simp
  have m2: "fst (cache_get env_strong (get_cache_key ''Apple'' ?q2) (initial_world 0)) = Inr None"
    by code_simp
  have e: "embedding_result env_strong q = Inr [1]" for q
    by (simp add: env_strong_def sample_env_def)
  have v: "vector_result env_strong [1] ''Apple'' = Inr [strong_match]"
    by (simp add: env_strong_def sample_env_def)
  have n: "[strong_match] \<noteq> []" by simp
  have c: "completion_result env_strong (build_context [strong_match]) q = Inr ''Revenue was 10.''" for q
    by (simp add: env_strong_def sample_env_def)
  have s: "redis_setex_error env_strong = None" by (simp add: env_strong_def sample_env_def)
  have t: "CACHE_TTL_REALTIME env_strong = 3600" "CACHE_TTL_HISTORICAL env_strong = 86400"
    by (simp_all add: env_strong_def sample_env_def)
  note f1 = freshness_classification [of ?q1 ?q1 env_strong "''Apple''" "initial_world 0" "[1]"
      "[strong_match]" "''Revenue was 10.''" "''key-0001''"]
  note f2 = freshness_classification [of ?q2 ?q2 env_strong "''Apple''" "initial_world 0" "[1]"
      "[strong_match]" "''Revenue was 10.''" "''key-0001''"]
  from f1 m1 e v n c s have a: "redis_db (snd (process_query env_strong ''Apple'' ?q1 ''key-0001''
        (initial_world 0))) (get_cache_key ''Apple'' ?q1)
       = Some (''Revenue was 10.'', if is_real_time_query ?q1 then CACHE_TTL_REALTIME env_strong
                                else CACHE_TTL_HISTORICAL env_strong)"
    by blast
  from f2 m2 e v n c s have b: "redis_db (snd (process_query env_strong ''Apple'' ?q2 ''key-0001''
        (initial_world 0))) (get_cache_key ''Apple'' ?q2)
       = Some (''Revenue was 10.'', if is_real_time_query ?q2 then CACHE_TTL_REALTIME env_strong
                                else CACHE_TTL_HISTORICAL env_strong)"
    by blast
  have a': "(if is_real_time_query ?q1 then CACHE_TTL_REALTIME env_strong
             else CACHE_TTL_HISTORICAL env_strong) = 3600" using r1 t by (simp only: if_True)
  have b': "(if is_real_time_query ?q2 then CACHE_TTL_REALTIME env_strong
             else CACHE_TTL_HISTORICAL env_strong) = 86400" using r2 t by (simp only: if_False)
  show ?thesis using r1 r2 a b unfolding a' b' by blast
qed

section \<open>Failures of the cache backend\<close>

text \<open>
  With the connection handle set, or a lazy connection that succeeds, an \<open>Exception\<close> of
  the Redis \<open>get\<close> is a miss.
\<close>

lemma get_error_is_miss:
  assumes "redis w \<or> redis_connect_error e = None"
  shows "fst (cache_get (e\<lparr>redis_get_error := Some (Exception msg)\<rparr>) key w) = Inr None"
    and "cache_misses (snd (cache_get (e\<lparr>redis_get_error := Some (Exception msg)\<rparr>) key w))
           = cache_misses w + 1"
  using assms by (auto simp add: cache_get_def cache_connect_def Let_def split: option.splits)

text \<open>
  C5. The code does not do what the claim says. In a process whose connection handle is not
  set, with a backend that cannot be reached, the lazy \<open>connect\<close> in \<open>cache.get\<close> stands
  before the \<open>try\<close>: \<open>get\<close> raises instead of returning \<open>None\<close>, and \<open>process_query\<close>
  returns source \<open>error\<close> with the message of the cache. The same request is answered with
  source \<open>generated\<close> when the backend can be reached, and also when the handle is set and it
  is the Redis \<open>get\<close> that fails, which the \<open>try\<close> of the same method turns into a miss.
\<close>

theorem lazy_connect_failure_is_error:
  "\<not> redis (initial_world 0)
   \<and> fst (cache_get (env_strong\<lparr>redis_connect_error := Some (Exception ''Connection refused'')\<rparr>)
        (get_cache_key ''Apple'' ''What is Revenue?'') (initial_world 0))
       = Inl (Exception ''Connection refused'')
   \<and> fst (process_query (env_strong\<lparr>redis_connect_error := Some (Exception ''Connection refused'')\<rparr>)
            ''Apple'' ''What is Revenue?'' ''key-0001'' (initial_world 0))
       = Inr \<lparr>answer = ''Sorry, I encountered an error while processing your question.'',
              source = ''error'', latency_seconds = 2, error = Some ''Connection refused''\<rparr>
   \<and> fst (process_query env_strong ''Apple'' ''What is Revenue?'' ''key-0001'' (initial_world 0))
       = Inr \<lparr>answer = ''Revenue was 10.'', source = ''generated'', latency_seconds = 2,
              error = None\<rparr>
   \<and> redis connected_world
   \<and> fst (cache_get (env_strong\<lparr>redis_get_error := Some (Exception ''Connection refused'')\<rparr>)
        (get_cache_key ''Apple'' ''What is Revenue?'') connected_world) = Inr None
   \<and> fst (process_query (env_strong\<lparr>redis_get_error := Some (Exception ''Connection refused'')\<rparr>)
            ''Apple'' ''What is Revenue?'' ''key-0001'' connected_world)
       = Inr \<lparr>answer = ''Revenue was 10.'', source = ''generated'', latency_seconds = 2,
              error = None\<rparr>"
  by code_simp

section \<open>The metrics endpoint\<close>

lemma value_holder_does_not_validate:
  "validate_fields MetricsResponse
     [''query_count'' \<mapsto> Number a, ''cache_hit_ratio'' \<mapsto> Number b,
      ''concurrent_requests'' \<mapsto> ValueHolder c, ''average_latency'' \<mapsto> Number d,
      ''cache_size'' \<mapsto> Number f]
   = Inl (Exception ''ResponseValidationError'')"
  by (simp add: MetricsResponse_def validate_field_def)

text \<open>
  C9. The code does not do what the claim says. In every state, whatever the size of the cache,
  the handler fills \<open>average_latency\<close> with the value of \<open>queries_per_second\<close> (the number of
  queries divided by the uptime, at least one second) and \<open>concurrent_requests\<close> with the
  object that holds the value of the gauge, so the response does not validate and the
  operation ends in an internal server error. After two queries of three seconds each, ten
  seconds after the start, the average latency of the recorded queries is 3, the field of the
  handler is 1/5, and the caller receives no snapshot.
\<close>

theorem average_latency_is_throughput:
  "(\<exists>d. get_metrics now (Inr n) w = Inr d
        \<and> d ''average_latency''
            = Some (Number (of_nat (total_queries w) / max 1 (now - start_time w)))
        \<and> d ''query_count'' = Some (Number (of_nat (total_queries w)))
        \<and> d ''concurrent_requests'' = Some (ValueHolder (of_int (concurrent_requests w))))
   \<and> metrics_endpoint now (Inr n) w = Inl (Exception ''ResponseValidationError'')
   \<and> query_latency two_slow_queries = [((''Apple'', False), 3), ((''Apple'', False), 3)]
   \<and> recorded_average_latency two_slow_queries = 3
   \<and> (\<exists>d. get_metrics 10 (Inr 1) two_slow_queries = Inr d
          \<and> d ''average_latency'' = Some (Number (1 / 5)))
   \<and> metrics_endpoint 10 (Inr 1) two_slow_queries = Inl (Exception ''ResponseValidationError'')"
proof -
  have a: "\<exists>d. get_metrics now (Inr n) w = Inr d
        \<and> d ''average_latency''
            = Some (Number (of_nat (total_queries w) / max 1 (now - start_time w)))
        \<and> d ''query_count'' = Some (Number (of_nat (total_queries w)))
        \<and> d ''concurrent_requests'' = Some (ValueHolder (of_int (concurrent_requests w)))"
    by (simp add: get_metrics_def get_metrics_summary_def get_cache_stats_def dict_index_def
        dict_get_def Let_def)
  have e: "metrics_endpoint t (Inr k) v = Inl (Exception ''ResponseValidationError'')" for t k v
    by (simp add: metrics_endpoint_def get_metrics_def get_metrics_summary_def
        get_cache_stats_def dict_index_def dict_get_def Let_def value_holder_does_not_validate)
  have b: "query_latency two_slow_queries = [((''Apple'', False), 3), ((''Apple'', False), 3)]"
    by (simp add: two_slow_queries_def record_query_def initial_world_def Let_def)
  have c: "recorded_average_latency two_slow_queries = 3"
    by (simp add: recorded_average_latency_def b)
  have t: "total_queries two_slow_queries = 2" "start_time two_slow_queries = 0"
    by (simp_all add: two_slow_queries_def record_query_def initial_world_def Let_def)
  have d: "\<exists>d. get_metrics 10 (Inr 1) two_slow_queries = Inr d
          \<and> d ''average_latency'' = Some (Number (1 / 5))"
    by (simp add: get_metrics_def get_metrics_summary_def get_cache_stats_def dict_index_def
        dict_get_def Let_def t)
  show ?thesis using a e [of now n w] b c d e [of 10 1 two_slow_queries] by (intro conjI)
qed

end
